theory Spec2Isabelle
  imports Main
begin

section \<open>The document, as the two scripts see it\<close>

text \<open>
  Both scripts of the repository (\<^verbatim>\<open>static/js/lightbox.js\<close> and
  \<^verbatim>\<open>static/js/theme.js\<close>) are listeners of \<^verbatim>\<open>DOMContentLoaded\<close> that look
  elements up, mutate a few of their properties and register further listeners, which
  are closures over the elements found at load time.

  Elements live in a store: a node is an address, \<open>el\<close> maps it to the element's
  properties, and \<open>nodes\<close> lists the nodes of the document in tree order. Element
  references held by a closure are nodes, so two references to one element alias, as in
  the DOM. A JavaScript value that may be \<^verbatim>\<open>null\<close> or \<^verbatim>\<open>undefined\<close> is an
  \<open>option\<close>.
\<close>

type_synonym node = nat

record element =
  el_id :: string
  classList :: "string list"
  src :: string
  alt :: "string option"
  textContent :: string

text \<open>
  \<^verbatim>\<open>DOMTokenList\<close>: an ordered set of tokens. \<^verbatim>\<open>add\<close> appends a token that is
  not yet there, \<^verbatim>\<open>remove\<close> deletes it, \<^verbatim>\<open>contains\<close> tests membership.
\<close>

definition classList_add :: "string \<Rightarrow> string list \<Rightarrow> string list" where
  "classList_add c cs = (if c \<in> set cs then cs else cs @ [c])"

definition classList_remove :: "string \<Rightarrow> string list \<Rightarrow> string list" where
  "classList_remove c cs = filter (\<lambda>x. x \<noteq> c) cs"

definition classList_contains :: "string \<Rightarrow> string list \<Rightarrow> bool" where
  "classList_contains c cs = (c \<in> set cs)"

subsection \<open>Local storage\<close>

text \<open>
  \<^verbatim>\<open>window.localStorage\<close>: a map from keys to strings. Access may throw (storage
  blocked or unavailable, quota exceeded); whether reads and writes throw is a property
  of the browsing session, carried by the storage itself. A throwing call is the
  \<open>Inl\<close> branch of the result.
\<close>

datatype exn = DOMException

record storage =
  items :: "string \<rightharpoonup> string"
  getItem_throws :: bool
  setItem_throws :: bool

definition getItem :: "storage \<Rightarrow> string \<Rightarrow> exn + string option" where
  "getItem st k = (if getItem_throws st then Inl DOMException else Inr (items st k))"

definition setItem :: "storage \<Rightarrow> string \<Rightarrow> string \<Rightarrow> exn + storage" where
  "setItem st k v =
     (if setItem_throws st then Inl DOMException
      else Inr (st\<lparr>items := (items st)(k \<mapsto> v)\<rparr>))"

subsection \<open>Closures and the page\<close>

text \<open>
  The variables each script's listeners close over: \<^verbatim>\<open>overlay\<close>, \<^verbatim>\<open>bigImg\<close>,
  \<^verbatim>\<open>closeBtn\<close> and the node list of \<^verbatim>\<open>querySelectorAll(".js-lightbox")\<close> in
  lightbox.js; \<^verbatim>\<open>toggle\<close> and \<^verbatim>\<open>icon\<close> in theme.js (\<^verbatim>\<open>body\<close> is
  \<^verbatim>\<open>document.body\<close>, which always exists when \<^verbatim>\<open>DOMContentLoaded\<close> fires; its
  class list is a field of the page).
\<close>

record lightbox_env =
  overlay :: node
  bigImg :: node
  closeBtn :: "node option"
  triggers :: "node list"

record theme_env =
  toggle :: "node option"
  icon :: "node option"

text \<open>
  The page: the document, the storage, and the listeners registered so far.
  \<open>lightbox_listeners\<close> is \<open>Some env\<close> once lightbox.js has registered its click and
  keydown listeners, \<open>toggle_listener\<close> is \<open>Some env\<close> once theme.js has registered the
  click listener of the toggle (\<^verbatim>\<open>DOMContentLoaded\<close> is dispatched once per document).
\<close>

record page =
  nodes :: "node list"
  el :: "node \<Rightarrow> element"
  body_classList :: "string list"
  localStorage :: storage
  lightbox_listeners :: "lightbox_env option"
  toggle_listener :: "theme_env option"

text \<open>A page as parsed, before any script has run: no listener is registered.\<close>

definition fresh_page :: "node list \<Rightarrow> (node \<Rightarrow> element) \<Rightarrow> string list \<Rightarrow> storage \<Rightarrow> page" where
  "fresh_page ns f cs st =
     \<lparr>nodes = ns, el = f, body_classList = cs, localStorage = st,
      lightbox_listeners = None, toggle_listener = None\<rparr>"

text \<open>\<^verbatim>\<open>document.getElementById\<close>: the first node in tree order with that id, or null.\<close>

definition getElementById :: "page \<Rightarrow> string \<Rightarrow> node option" where
  "getElementById p i = find (\<lambda>n. el_id (el p n) = i) (nodes p)"

text \<open>\<^verbatim>\<open>document.querySelectorAll\<close> for a class selector \<^verbatim>\<open>.c\<close>.\<close>

definition querySelectorAll_class :: "page \<Rightarrow> string \<Rightarrow> node list" where
  "querySelectorAll_class p c = filter (\<lambda>n. c \<in> set (classList (el p n))) (nodes p)"

text \<open>An assignment to properties of the element at node \<open>n\<close>.\<close>

definition update_el :: "node \<Rightarrow> (element \<Rightarrow> element) \<Rightarrow> page \<Rightarrow> page" where
  "update_el n f p = p\<lparr>el := (el p)(n := f (el p n))\<rparr>"

section \<open>lightbox.js\<close>

text \<open>\<^verbatim>\<open>alt || ""\<close>: the default replaces every falsy value (undefined, null, "").\<close>

definition or_empty :: "string option \<Rightarrow> string" where
  "or_empty a = (case a of None \<Rightarrow> '''' | Some s \<Rightarrow> if s = '''' then '''' else s)"

text \<open>
  \<^verbatim>\<open>
  function openLightbox(src, alt) {
      bigImg.src = src;
      bigImg.alt = alt || "";
      overlay.classList.add("is-open");
  }
  \<close>
\<close>

definition openLightbox :: "lightbox_env \<Rightarrow> string \<Rightarrow> string option \<Rightarrow> page \<Rightarrow> page" where
  "openLightbox env s a p =
     (let p1 = update_el (bigImg env) (\<lambda>e. e\<lparr>src := s\<rparr>) p;
          p2 = update_el (bigImg env) (\<lambda>e. e\<lparr>alt := Some (or_empty a)\<rparr>) p1
      in update_el (overlay env) (\<lambda>e. e\<lparr>classList := classList_add ''is-open'' (classList e)\<rparr>) p2)"

text \<open>
  \<^verbatim>\<open>
  function closeLightbox() {
      overlay.classList.remove("is-open");
      bigImg.src = "";
  }
  \<close>
\<close>

definition closeLightbox :: "lightbox_env \<Rightarrow> page \<Rightarrow> page" where
  "closeLightbox env p =
     (let p1 = update_el (overlay env)
                 (\<lambda>e. e\<lparr>classList := classList_remove ''is-open'' (classList e)\<rparr>) p
      in update_el (bigImg env) (\<lambda>e. e\<lparr>src := ''''\<rparr>) p1)"

text \<open>
  The \<^verbatim>\<open>DOMContentLoaded\<close> listener of lightbox.js: it returns early when the overlay
  or the enlarged image is missing, and otherwise registers one click listener per
  trigger image, the click listener of the overlay and the keydown listener of the
  document, all closing over the same variables.
\<close>

definition lightbox_DOMContentLoaded :: "page \<Rightarrow> page" where
  "lightbox_DOMContentLoaded p =
     (case getElementById p ''lightboxOverlay'' of
        None \<Rightarrow> p
      | Some ov \<Rightarrow>
          (case getElementById p ''lightboxImage'' of
             None \<Rightarrow> p
           | Some bi \<Rightarrow>
               p\<lparr>lightbox_listeners :=
                    Some \<lparr>overlay = ov, bigImg = bi,
                          closeBtn = getElementById p ''lightboxClose'',
                          triggers = querySelectorAll_class p ''js-lightbox''\<rparr>\<rparr>))"

text \<open>
  The click listener of trigger image \<open>img\<close> (lines 21 to 25): it reads the image's
  source and alt text when the click happens. A node without such a listener ignores
  the click.
\<close>

definition trigger_click :: "node \<Rightarrow> page \<Rightarrow> page" where
  "trigger_click img p =
     (case lightbox_listeners p of
        None \<Rightarrow> p
      | Some env \<Rightarrow>
          if img \<in> set (triggers env)
          then openLightbox env (src (el p img)) (alt (el p img)) p
          else p)"

text \<open>
  The click listener of the overlay (lines 27 to 31), run on a click event whose
  \<^verbatim>\<open>target\<close> is node \<open>t\<close>: the browser runs it for a click on the overlay and
  for a click on anything the overlay contains, and \<open>t\<close> is the element clicked.
  \<^verbatim>\<open>e.target === closeBtn\<close> is false when \<^verbatim>\<open>closeBtn\<close> is null.
\<close>

definition overlay_click :: "node \<Rightarrow> page \<Rightarrow> page" where
  "overlay_click t p =
     (case lightbox_listeners p of
        None \<Rightarrow> p
      | Some env \<Rightarrow>
          if t = overlay env \<or> Some t = closeBtn env then closeLightbox env p else p)"

text \<open>The keydown listener of the document (lines 33 to 37), on a key event with key \<open>k\<close>.\<close>

definition document_keydown :: "string \<Rightarrow> page \<Rightarrow> page" where
  "document_keydown k p =
     (case lightbox_listeners p of
        None \<Rightarrow> p
      | Some env \<Rightarrow> if k = ''Escape'' then closeLightbox env p else p)"

section \<open>theme.js\<close>

text \<open>
  The two glyphs of the indicator icon, as the UTF-8 bytes of the source file:
  U+1F319 (crescent moon) and U+2600 U+FE0F (sun).
\<close>

definition moon_glyph :: string where
  "moon_glyph = [CHR 0xF0, CHR 0x9F, CHR 0x8C, CHR 0x99]"

definition sun_glyph :: string where
  "sun_glyph = [CHR 0xE2, CHR 0x98, CHR 0x80, CHR 0xEF, CHR 0xB8, CHR 0x8F]"

definition theme_key :: string where
  "theme_key = ''koshkina-theme''"

text \<open>
  \<^verbatim>\<open>
  function applyTheme(theme) {
      if (theme === "dark") { body.classList.add("dark-theme"); }
      else { body.classList.remove("dark-theme"); }
      if (icon) { icon.textContent = theme === "dark" ? MOON : SUN; }
      try { window.localStorage.setItem("koshkina-theme", theme); } catch (e) { }
  }
  \<close>
  The \<^verbatim>\<open>catch\<close> block is empty: a throwing write leaves the page as it is after the
  first two statements.
\<close>

definition applyTheme :: "theme_env \<Rightarrow> string \<Rightarrow> page \<Rightarrow> page" where
  "applyTheme env theme p =
     (let p1 = (if theme = ''dark''
                then p\<lparr>body_classList := classList_add ''dark-theme'' (body_classList p)\<rparr>
                else p\<lparr>body_classList := classList_remove ''dark-theme'' (body_classList p)\<rparr>);
          p2 = (case icon env of
                  None \<Rightarrow> p1
                | Some i \<Rightarrow>
                    update_el i
                      (\<lambda>e. e\<lparr>textContent := (if theme = ''dark'' then moon_glyph else sun_glyph)\<rparr>)
                      p1)
      in case setItem (localStorage p2) theme_key theme of
           Inl e \<Rightarrow> p2
         | Inr st \<Rightarrow> p2\<lparr>localStorage := st\<rparr>)"

text \<open>
  The read of the saved theme (lines 24 to 29): \<^verbatim>\<open>null\<close> when the key is absent and
  when the read throws.
\<close>

definition savedTheme :: "page \<Rightarrow> string option" where
  "savedTheme p =
     (case getItem (localStorage p) theme_key of
        Inl e \<Rightarrow> None
      | Inr v \<Rightarrow> v)"

text \<open>
  The \<^verbatim>\<open>DOMContentLoaded\<close> listener of theme.js: apply the saved theme when it is
  exactly "dark" or "light" and "light" otherwise, then register the click listener of
  the toggle when the toggle exists.
\<close>

definition theme_DOMContentLoaded :: "page \<Rightarrow> page" where
  "theme_DOMContentLoaded p =
     (let env = \<lparr>toggle = getElementById p ''themeToggle'',
                 icon = getElementById p ''themeToggleIcon''\<rparr>;
          p1 = (case savedTheme p of
                  None \<Rightarrow> applyTheme env ''light'' p
                | Some t \<Rightarrow>
                    if t = ''dark'' \<or> t = ''light'' then applyTheme env t p
                    else applyTheme env ''light'' p)
      in case toggle env of
           None \<Rightarrow> p1
         | Some t \<Rightarrow> p1\<lparr>toggle_listener := Some env\<rparr>)"

text \<open>
  The click listener of the toggle (lines 38 to 41); a page without it ignores the click.
\<close>

definition toggle_click :: "page \<Rightarrow> page" where
  "toggle_click p =
     (case toggle_listener p of
        None \<Rightarrow> p
      | Some env \<Rightarrow>
          (let isDark = classList_contains ''dark-theme'' (body_classList p)
           in applyTheme env (if isDark then ''light'' else ''dark'') p))"

subsection \<open>The exceptions of theme.js, explicit\<close>

text \<open>
  The three functions of theme.js once more, with a result that says whether an
  exception leaves the function: \<open>Inl e\<close> is the exception \<open>e\<close> propagating to the
  caller, \<open>Inr p\<close> a normal return with page \<open>p\<close>. \<open>try_catch\<close> is the
  \<^verbatim>\<open>try { body } catch (e) { handler }\<close> statement; both handlers of theme.js return
  normally (the one of \<open>applyTheme\<close> is empty, the one of the load sets
  \<^verbatim>\<open>savedTheme = null\<close>). The storage calls are the only statements that can throw.
\<close>

definition try_catch :: "(exn + 'a) \<Rightarrow> (exn \<Rightarrow> exn + 'a) \<Rightarrow> exn + 'a" where
  "try_catch body handler = (case body of Inl e \<Rightarrow> handler e | Inr v \<Rightarrow> Inr v)"

definition applyTheme_exn :: "theme_env \<Rightarrow> string \<Rightarrow> page \<Rightarrow> exn + page" where
  "applyTheme_exn env theme p =
     (let p1 = (if theme = ''dark''
                then p\<lparr>body_classList := classList_add ''dark-theme'' (body_classList p)\<rparr>
                else p\<lparr>body_classList := classList_remove ''dark-theme'' (body_classList p)\<rparr>);
          p2 = (case icon env of
                  None \<Rightarrow> p1
                | Some i \<Rightarrow>
                    update_el i
                      (\<lambda>e. e\<lparr>textContent := (if theme = ''dark'' then moon_glyph else sun_glyph)\<rparr>)
                      p1)
      in try_catch
           (case setItem (localStorage p2) theme_key theme of
              Inl e \<Rightarrow> Inl e
            | Inr st \<Rightarrow> Inr (p2\<lparr>localStorage := st\<rparr>))
           (\<lambda>e. Inr p2))"

definition theme_DOMContentLoaded_exn :: "page \<Rightarrow> exn + page" where
  "theme_DOMContentLoaded_exn p =
     (let env = \<lparr>toggle = getElementById p ''themeToggle'',
                 icon = getElementById p ''themeToggleIcon''\<rparr>
      in case try_catch (getItem (localStorage p) theme_key) (\<lambda>e. Inr None) of
           Inl e \<Rightarrow> Inl e
         | Inr saved \<Rightarrow>
             (case (case saved of
                      None \<Rightarrow> applyTheme_exn env ''light'' p
                    | Some t \<Rightarrow>
                        if t = ''dark'' \<or> t = ''light'' then applyTheme_exn env t p
                        else applyTheme_exn env ''light'' p) of
                Inl e \<Rightarrow> Inl e
              | Inr p1 \<Rightarrow>
                  Inr (case toggle env of
                         None \<Rightarrow> p1
                       | Some t \<Rightarrow> p1\<lparr>toggle_listener := Some env\<rparr>)))"

definition toggle_click_exn :: "page \<Rightarrow> exn + page" where
  "toggle_click_exn p =
     (case toggle_listener p of
        None \<Rightarrow> Inr p
      | Some env \<Rightarrow>
          (let isDark = classList_contains ''dark-theme'' (body_classList p)
           in applyTheme_exn env (if isDark then ''light'' else ''dark'') p))"

section \<open>Events\<close>

text \<open>
  What the browser can make the two scripts do: dispatch \<^verbatim>\<open>DOMContentLoaded\<close> to
  either script, and run one of the registered listeners on a click or a key press.
  A click or a key press before the load finds no listener and changes nothing;
  \<open>run\<close> takes the events in any order.
\<close>

datatype event =
    ThemeLoad
  | LightboxLoad
  | ToggleClick
  | TriggerClick node
  | OverlayClick node
  | Keydown string

fun step :: "event \<Rightarrow> page \<Rightarrow> page" where
  "step ThemeLoad p = theme_DOMContentLoaded p"
| "step LightboxLoad p = lightbox_DOMContentLoaded p"
| "step ToggleClick p = toggle_click p"
| "step (TriggerClick img) p = trigger_click img p"
| "step (OverlayClick t) p = overlay_click t p"
| "step (Keydown k) p = document_keydown k p"

fun run :: "event list \<Rightarrow> page \<Rightarrow> page" where
  "run [] p = p"
| "run (e # es) p = run es (step e p)"

section \<open>Invariants of the reachable pages\<close>

text \<open>
  The closures only ever hold what the load listeners looked up, and no listener changes
  an id or a \<^verbatim>\<open>js-lightbox\<close> class: on every page reached from a fresh one, the
  lightbox closure holds the elements that carry the three ids and the trigger images.
\<close>

definition lightbox_inv :: "page \<Rightarrow> bool" where
  "lightbox_inv p =
     (case lightbox_listeners p of
        None \<Rightarrow> True
      | Some env \<Rightarrow>
          getElementById p ''lightboxOverlay'' = Some (overlay env) \<and>
          getElementById p ''lightboxImage'' = Some (bigImg env) \<and>
          closeBtn env = getElementById p ''lightboxClose'' \<and>
          triggers env = querySelectorAll_class p ''js-lightbox'')"

text \<open>
  The theme as it shows: once the listener of the toggle is registered, the icon (when
  there is one) and the stored value (when writes do not throw) agree with the class of
  the body.
\<close>

definition glyph_of :: "bool \<Rightarrow> string" where
  "glyph_of d = (if d then moon_glyph else sun_glyph)"

definition theme_name :: "bool \<Rightarrow> string" where
  "theme_name d = (if d then ''dark'' else ''light'')"

definition is_dark :: "page \<Rightarrow> bool" where
  "is_dark p = classList_contains ''dark-theme'' (body_classList p)"

definition theme_inv :: "page \<Rightarrow> bool" where
  "theme_inv p =
     (case toggle_listener p of
        None \<Rightarrow> True
      | Some env \<Rightarrow>
          icon env = getElementById p ''themeToggleIcon'' \<and>
          (case icon env of
             None \<Rightarrow> True
           | Some i \<Rightarrow> textContent (el p i) = glyph_of (is_dark p)) \<and>
          (setItem_throws (localStorage p) \<or>
           items (localStorage p) theme_key = Some (theme_name (is_dark p))))"

text \<open>The closure and the theme that the load listener of theme.js computes.\<close>

definition loaded_env :: "page \<Rightarrow> theme_env" where
  "loaded_env p = \<lparr>toggle = getElementById p ''themeToggle'',
                   icon = getElementById p ''themeToggleIcon''\<rparr>"

definition loaded_theme :: "page \<Rightarrow> string" where
  "loaded_theme p = (if savedTheme p = Some ''dark'' then ''dark'' else ''light'')"

section \<open>An example document\<close>

text \<open>
  A page with the overlay (node 10), the enlarged image (11), the close control (12), one
  trigger image (13), the theme toggle (14) and its icon (15); \<open>example_env\<close> is the
  closure that the load listener of lightbox.js builds on it.
\<close>

definition blank :: element where
  "blank = \<lparr>el_id = '''', classList = [], src = '''', alt = None, textContent = ''''\<rparr>"

definition example_el :: "node \<Rightarrow> element" where
  "example_el =
     (\<lambda>n. blank)
       (10 := blank\<lparr>el_id := ''lightboxOverlay'', classList := [''lightbox-overlay'']\<rparr>,
        11 := blank\<lparr>el_id := ''lightboxImage''\<rparr>,
        12 := blank\<lparr>el_id := ''lightboxClose''\<rparr>,
        13 := blank\<lparr>classList := [''js-lightbox''], src := ''/static/img/cat.jpg'',
                    alt := Some ''cat''\<rparr>,
        14 := blank\<lparr>el_id := ''themeToggle''\<rparr>,
        15 := blank\<lparr>el_id := ''themeToggleIcon''\<rparr>)"

text \<open>
  A storage holding the given key-value pairs; \<open>blocked\<close> makes every access throw.
\<close>

definition store :: "(string \<times> string) list \<Rightarrow> bool \<Rightarrow> storage" where
  "store kvs blocked =
     \<lparr>items = map_of kvs, getItem_throws = blocked, setItem_throws = blocked\<rparr>"

text \<open>The same storage with writes that throw (reads still work).\<close>

definition write_blocked :: "storage \<Rightarrow> storage" where
  "write_blocked st = st\<lparr>setItem_throws := True\<rparr>"

abbreviation example_page :: "storage \<Rightarrow> page" where
  "example_page st \<equiv> fresh_page [10, 11, 12, 13, 14, 15] example_el [] st"

definition example_env :: lightbox_env where
  "example_env = \<lparr>overlay = 10, bigImg = 11, closeBtn = Some 12, triggers = [13]\<rparr>"

section \<open>What each function changes and what it leaves alone\<close>

lemma update_el_simps:
  "nodes (update_el n f p) = nodes p"
  "body_classList (update_el n f p) = body_classList p"
  "localStorage (update_el n f p) = localStorage p"
  "lightbox_listeners (update_el n f p) = lightbox_listeners p"
  "toggle_listener (update_el n f p) = toggle_listener p"
  "el (update_el n f p) m = (if m = n then f (el p n) else el p m)"
  by (simp_all add: update_el_def)

lemma classList_remove_absent: "c \<notin> set (classList_remove c cs)"
  by (simp add: classList_remove_def)

lemma classList_add_present: "c \<in> set (classList_add c cs)"
  by (simp add: classList_add_def)

lemma classList_add_other: "c \<noteq> d \<Longrightarrow> (c \<in> set (classList_add d cs)) = (c \<in> set cs)"
  by (simp add: classList_add_def)

lemma classList_remove_other: "c \<noteq> d \<Longrightarrow> (c \<in> set (classList_remove d cs)) = (c \<in> set cs)"
  by (auto simp: classList_remove_def)

lemma openLightbox_frame:
  "nodes (openLightbox env s a p) = nodes p"
  "body_classList (openLightbox env s a p) = body_classList p"
  "localStorage (openLightbox env s a p) = localStorage p"
  "lightbox_listeners (openLightbox env s a p) = lightbox_listeners p"
  "toggle_listener (openLightbox env s a p) = toggle_listener p"
  "el_id (el (openLightbox env s a p) n) = el_id (el p n)"
  "textContent (el (openLightbox env s a p) n) = textContent (el p n)"
  "(''js-lightbox'' \<in> set (classList (el (openLightbox env s a p) n)))
     = (''js-lightbox'' \<in> set (classList (el p n)))"
  by (simp_all add: openLightbox_def Let_def update_el_simps classList_add_other)

lemma closeLightbox_frame:
  "nodes (closeLightbox env p) = nodes p"
  "body_classList (closeLightbox env p) = body_classList p"
  "localStorage (closeLightbox env p) = localStorage p"
  "lightbox_listeners (closeLightbox env p) = lightbox_listeners p"
  "toggle_listener (closeLightbox env p) = toggle_listener p"
  "el_id (el (closeLightbox env p) n) = el_id (el p n)"
  "textContent (el (closeLightbox env p) n) = textContent (el p n)"
  "alt (el (closeLightbox env p) n) = alt (el p n)"
  "(''js-lightbox'' \<in> set (classList (el (closeLightbox env p) n)))
     = (''js-lightbox'' \<in> set (classList (el p n)))"
  by (simp_all add: closeLightbox_def Let_def update_el_simps classList_remove_other)

lemma closeLightbox_closed:
  "''is-open'' \<notin> set (classList (el (closeLightbox env p) (overlay env)))"
  "src (el (closeLightbox env p) (bigImg env)) = ''''"
  by (simp_all add: closeLightbox_def Let_def update_el_simps classList_remove_absent)

lemma openLightbox_open:
  "''is-open'' \<in> set (classList (el (openLightbox env s a p) (overlay env)))"
  "src (el (openLightbox env s a p) (bigImg env)) = s"
  "alt (el (openLightbox env s a p) (bigImg env)) = Some (or_empty a)"
  by (simp_all add: openLightbox_def Let_def update_el_simps classList_add_present)

lemma applyTheme_body:
  "body_classList (applyTheme env t p) =
     (if t = ''dark'' then classList_add ''dark-theme'' (body_classList p)
      else classList_remove ''dark-theme'' (body_classList p))"
  by (simp add: applyTheme_def Let_def update_el_simps split: option.splits sum.splits)

lemma applyTheme_el:
  "el (applyTheme env t p) n =
     (if icon env = Some n
      then (el p n)\<lparr>textContent := (if t = ''dark'' then moon_glyph else sun_glyph)\<rparr>
      else el p n)"
  by (auto simp add: applyTheme_def Let_def update_el_simps split: option.splits sum.splits)

lemma applyTheme_storage:
  "localStorage (applyTheme env t p) =
     (if setItem_throws (localStorage p) then localStorage p
      else (localStorage p)\<lparr>items := (items (localStorage p))(theme_key \<mapsto> t)\<rparr>)"
  by (auto simp add: applyTheme_def Let_def update_el_simps setItem_def split: option.splits sum.splits)

lemma applyTheme_frame:
  "nodes (applyTheme env t p) = nodes p"
  "lightbox_listeners (applyTheme env t p) = lightbox_listeners p"
  "toggle_listener (applyTheme env t p) = toggle_listener p"
  by (auto simp add: applyTheme_def Let_def update_el_simps split: option.splits sum.splits)

lemma applyTheme_el_frame:
  "el_id (el (applyTheme env t p) n) = el_id (el p n)"
  "classList (el (applyTheme env t p) n) = classList (el p n)"
  "src (el (applyTheme env t p) n) = src (el p n)"
  "alt (el (applyTheme env t p) n) = alt (el p n)"
  by (simp_all add: applyTheme_el)

section \<open>Steps preserve the invariants\<close>

lemma theme_DOMContentLoaded_applied:
  "theme_DOMContentLoaded p =
     (case getElementById p ''themeToggle'' of
        None \<Rightarrow> applyTheme (loaded_env p) (loaded_theme p) p
      | Some t \<Rightarrow> (applyTheme (loaded_env p) (loaded_theme p) p)
                    \<lparr>toggle_listener := Some (loaded_env p)\<rparr>)"
  by (cases "savedTheme p")
     (auto simp add: theme_DOMContentLoaded_def Let_def loaded_env_def loaded_theme_def
        split: option.splits)

lemma step_nodes: "nodes (step e p) = nodes p"
proof (cases e)
  case ThemeLoad
  then show ?thesis
    by (simp add: theme_DOMContentLoaded_applied applyTheme_frame split: option.splits)
qed (auto simp: lightbox_DOMContentLoaded_def toggle_click_def trigger_click_def overlay_click_def
      document_keydown_def Let_def applyTheme_frame openLightbox_frame closeLightbox_frame
      split: option.splits)

lemma step_el_id: "el_id (el (step e p) n) = el_id (el p n)"
proof (cases e)
  case ThemeLoad
  then show ?thesis
    by (simp add: theme_DOMContentLoaded_applied applyTheme_el_frame split: option.splits)
qed (auto simp: lightbox_DOMContentLoaded_def toggle_click_def trigger_click_def overlay_click_def
      document_keydown_def Let_def applyTheme_el_frame openLightbox_frame closeLightbox_frame
      split: option.splits)

lemma step_js_lightbox:
  "(''js-lightbox'' \<in> set (classList (el (step e p) n))) = (''js-lightbox'' \<in> set (classList (el p n)))"
proof (cases e)
  case ThemeLoad
  then show ?thesis
    by (simp add: theme_DOMContentLoaded_applied applyTheme_el_frame split: option.splits)
qed (auto simp: lightbox_DOMContentLoaded_def toggle_click_def trigger_click_def overlay_click_def
      document_keydown_def Let_def applyTheme_el_frame openLightbox_frame closeLightbox_frame
      split: option.splits)

lemma step_getElementById: "getElementById (step e p) i = getElementById p i"
  by (simp add: getElementById_def step_nodes step_el_id)

lemma step_querySelectorAll:
  "querySelectorAll_class (step e p) ''js-lightbox'' = querySelectorAll_class p ''js-lightbox''"
  by (simp add: querySelectorAll_class_def step_nodes step_js_lightbox)

lemma step_lightbox_listeners:
  "lightbox_listeners (step e p) = lightbox_listeners p \<or>
   (e = LightboxLoad \<and>
    (\<exists>ov bi. getElementById p ''lightboxOverlay'' = Some ov \<and>
       getElementById p ''lightboxImage'' = Some bi \<and>
       lightbox_listeners (step e p) =
         Some \<lparr>overlay = ov, bigImg = bi, closeBtn = getElementById p ''lightboxClose'',
               triggers = querySelectorAll_class p ''js-lightbox''\<rparr>))"
proof (cases e)
  case ThemeLoad
  then show ?thesis
    by (simp add: theme_DOMContentLoaded_applied applyTheme_frame split: option.splits)
qed (auto simp: lightbox_DOMContentLoaded_def toggle_click_def trigger_click_def overlay_click_def
      document_keydown_def Let_def applyTheme_frame openLightbox_frame closeLightbox_frame
      split: option.splits)

lemma step_lightbox_inv: "lightbox_inv p \<Longrightarrow> lightbox_inv (step e p)"
  using step_lightbox_listeners [of e p]
  by (auto simp: lightbox_inv_def step_getElementById step_querySelectorAll split: option.splits)

lemma run_lightbox_inv: "lightbox_inv p \<Longrightarrow> lightbox_inv (run es p)"
  by (induction es arbitrary: p) (simp_all add: step_lightbox_inv)

lemma run_getElementById: "getElementById (run es p) i = getElementById p i"
  by (induction es arbitrary: p) (simp_all add: step_getElementById)

lemma run_querySelectorAll:
  "querySelectorAll_class (run es p) ''js-lightbox'' = querySelectorAll_class p ''js-lightbox''"
  by (induction es arbitrary: p) (simp_all add: step_querySelectorAll)

lemma fresh_page_inv: "lightbox_inv (fresh_page ns f cs st)" "theme_inv (fresh_page ns f cs st)"
  by (simp_all add: lightbox_inv_def theme_inv_def fresh_page_def)

lemma getElementById_id: "getElementById p i = Some n \<Longrightarrow> el_id (el p n) = i"
  by (auto simp: getElementById_def find_Some_iff)

subsection \<open>The load of lightbox.js registers the listeners\<close>

text \<open>
  When the overlay and the enlarged image exist, the load registers the listeners,
  with or without a close control; no later event removes them, and on a page reached
  from a fresh document the closure is the one the load computes on that document.
\<close>

lemma lightbox_load_registers:
  assumes "getElementById p ''lightboxOverlay'' = Some ov"
    and "getElementById p ''lightboxImage'' = Some bi"
  shows "lightbox_listeners (lightbox_DOMContentLoaded p) \<noteq> None"
  using assms by (simp add: lightbox_DOMContentLoaded_def)

lemma step_keeps_listeners:
  "lightbox_listeners p \<noteq> None \<Longrightarrow> lightbox_listeners (step e p) \<noteq> None"
  using step_lightbox_listeners [of e p] by auto

lemma run_keeps_listeners:
  "lightbox_listeners p \<noteq> None \<Longrightarrow> lightbox_listeners (run es p) \<noteq> None"
proof (induction es arbitrary: p)
  case Nil
  then show ?case by simp
next
  case (Cons e es)
  have "lightbox_listeners (step e p) \<noteq> None"
    using Cons.prems by (rule step_keeps_listeners)
  then have "lightbox_listeners (run es (step e p)) \<noteq> None"
    by (rule Cons.IH)
  then show ?case by simp
qed

lemma run_registers:
  assumes "LightboxLoad \<in> set es"
    and "getElementById p ''lightboxOverlay'' = Some ov"
    and "getElementById p ''lightboxImage'' = Some bi"
  shows "lightbox_listeners (run es p) \<noteq> None"
  using assms
proof (induction es arbitrary: p)
  case Nil
  then show ?case by simp
next
  case (Cons e es)
  show ?case
  proof (cases "e = LightboxLoad")
    case True
    have "lightbox_listeners (step e p) \<noteq> None"
      using True Cons.prems(2,3) by (simp add: lightbox_load_registers)
    then show ?thesis by (simp add: run_keeps_listeners)
  next
    case False
    then have "LightboxLoad \<in> set es" using Cons.prems(1) by auto
    moreover have "getElementById (step e p) ''lightboxOverlay'' = Some ov"
      "getElementById (step e p) ''lightboxImage'' = Some bi"
      using Cons.prems(2,3) by (simp_all add: step_getElementById)
    ultimately show ?thesis using Cons.IH [of "step e p"] by simp
  qed
qed

lemma reachable_env:
  assumes "p = run evs (fresh_page ns f cs st)"
    and "LightboxLoad \<in> set evs"
    and "getElementById (fresh_page ns f cs st) ''lightboxOverlay'' = Some ov"
    and "getElementById (fresh_page ns f cs st) ''lightboxImage'' = Some bi"
  shows "lightbox_listeners p =
           Some \<lparr>overlay = ov, bigImg = bi,
                 closeBtn = getElementById (fresh_page ns f cs st) ''lightboxClose'',
                 triggers = querySelectorAll_class (fresh_page ns f cs st) ''js-lightbox''\<rparr>"
proof -
  have "lightbox_listeners p \<noteq> None"
    using assms by (simp add: run_registers)
  then obtain env where e: "lightbox_listeners p = Some env" by auto
  have "lightbox_inv p"
    using assms(1) by (simp add: run_lightbox_inv fresh_page_inv)
  then have "overlay env = ov" "bigImg env = bi"
    "closeBtn env = getElementById (fresh_page ns f cs st) ''lightboxClose''"
    "triggers env = querySelectorAll_class (fresh_page ns f cs st) ''js-lightbox''"
    using e assms(1,3,4)
    by (simp_all add: lightbox_inv_def run_getElementById run_querySelectorAll)
  then show ?thesis using e by simp
qed

lemma trigger_click_is_open:
  assumes "lightbox_listeners p = Some env" and "img \<in> set (triggers env)"
  shows "classList_contains ''is-open'' (classList (el (trigger_click img p) (overlay env)))"
  using assms by (simp add: trigger_click_def openLightbox_open classList_contains_def)

subsection \<open>The theme invariant\<close>

lemma applyTheme_dark: "is_dark (applyTheme env t p) = (t = ''dark'')"
  by (simp add: is_dark_def applyTheme_body classList_contains_def classList_add_present
      classList_remove_absent)

lemma applyTheme_icon:
  "icon env = Some i \<Longrightarrow> textContent (el (applyTheme env t p) i) = glyph_of (t = ''dark'')"
  by (simp add: applyTheme_el glyph_of_def)

lemma applyTheme_textContent_other:
  "icon env \<noteq> Some n \<Longrightarrow> textContent (el (applyTheme env t p) n) = textContent (el p n)"
  by (simp add: applyTheme_el)

lemma applyTheme_throws:
  "setItem_throws (localStorage (applyTheme env t p)) = setItem_throws (localStorage p)"
  "getItem_throws (localStorage (applyTheme env t p)) = getItem_throws (localStorage p)"
  by (simp_all add: applyTheme_storage)

lemma applyTheme_stored:
  "\<not> setItem_throws (localStorage p) \<Longrightarrow>
   items (localStorage (applyTheme env t p)) theme_key = Some t"
  by (simp add: applyTheme_storage)

lemma applyTheme_items_other:
  "k \<noteq> theme_key \<Longrightarrow> items (localStorage (applyTheme env t p)) k = items (localStorage p) k"
  by (simp add: applyTheme_storage)

lemma theme_name_eq: "t = ''dark'' \<or> t = ''light'' \<Longrightarrow> theme_name (t = ''dark'') = t"
  by (auto simp: theme_name_def)

lemma loaded_theme_cases: "loaded_theme p = ''dark'' \<or> loaded_theme p = ''light''"
  by (simp add: loaded_theme_def)

lemma applyTheme_establishes:
  assumes "icon env = getElementById p ''themeToggleIcon''"
    and "t = ''dark'' \<or> t = ''light''"
    and "toggle_listener q = Some env"
    and "q = applyTheme env t p \<or> q = (applyTheme env t p)\<lparr>toggle_listener := Some env\<rparr>"
  shows "theme_inv q"
proof -
  have g: "getElementById q ''themeToggleIcon'' = icon env"
    using assms(1,4) by (auto simp: getElementById_def applyTheme_frame applyTheme_el_frame)
  have d: "is_dark q = (t = ''dark'')"
    using assms(4) applyTheme_dark [of env t p] by (auto simp: is_dark_def)
  have i: "\<And>i. icon env = Some i \<Longrightarrow> textContent (el q i) = glyph_of (t = ''dark'')"
    using assms(4) by (auto simp: applyTheme_icon)
  have s: "setItem_throws (localStorage q) \<or> items (localStorage q) theme_key = Some t"
    using assms(4)
    by (cases "setItem_throws (localStorage p)") (auto simp: applyTheme_throws applyTheme_stored)
  show ?thesis
    using g d i s assms(2,3) by (auto simp: theme_inv_def theme_name_eq split: option.splits)
qed

lemma theme_load_inv:
  assumes inv: "theme_inv p"
  shows "theme_inv (theme_DOMContentLoaded p)"
proof (cases "toggle_listener (theme_DOMContentLoaded p)")
  case None
  then show ?thesis by (simp add: theme_inv_def)
next
  case (Some env)
  let ?q = "theme_DOMContentLoaded p"
  have i: "icon env = getElementById p ''themeToggleIcon''"
    using Some inv
    by (auto simp: theme_DOMContentLoaded_applied applyTheme_frame theme_inv_def loaded_env_def
        split: option.splits)
  have e: "applyTheme (loaded_env p) (loaded_theme p) p = applyTheme env (loaded_theme p) p"
    using i by (simp add: applyTheme_def loaded_env_def)
  have "?q = applyTheme env (loaded_theme p) p
        \<or> ?q = (applyTheme env (loaded_theme p) p)\<lparr>toggle_listener := Some env\<rparr>"
    using Some e by (auto simp: theme_DOMContentLoaded_applied split: option.splits)
  with i Some show ?thesis
    using applyTheme_establishes [OF i loaded_theme_cases Some] by blast
qed

lemma toggle_click_inv:
  assumes inv: "theme_inv p"
  shows "theme_inv (toggle_click p)"
proof (cases "toggle_listener p")
  case None
  with inv show ?thesis by (simp add: toggle_click_def)
next
  case (Some env)
  let ?t = "if classList_contains ''dark-theme'' (body_classList p) then ''light'' else ''dark''"
  have q: "toggle_click p = applyTheme env ?t p"
    using Some by (simp add: toggle_click_def)
  have i: "icon env = getElementById p ''themeToggleIcon''"
    using Some inv by (simp add: theme_inv_def)
  have l: "toggle_listener (toggle_click p) = Some env"
    using Some q by (simp add: applyTheme_frame)
  have t: "?t = ''dark'' \<or> ?t = ''light''" by simp
  show ?thesis
    using applyTheme_establishes [OF i t l] q by blast
qed

lemma lightbox_step_frame:
  assumes "e \<noteq> ThemeLoad" "e \<noteq> ToggleClick"
  shows "body_classList (step e p) = body_classList p"
    "localStorage (step e p) = localStorage p"
    "toggle_listener (step e p) = toggle_listener p"
    "textContent (el (step e p) n) = textContent (el p n)"
  using assms
  by (cases e; simp add: lightbox_DOMContentLoaded_def trigger_click_def overlay_click_def
      document_keydown_def openLightbox_frame closeLightbox_frame split: option.splits)+

lemma step_theme_inv:
  assumes inv: "theme_inv p"
  shows "theme_inv (step e p)"
proof (cases "e = ThemeLoad \<or> e = ToggleClick")
  case True
  with inv show ?thesis by (auto simp: theme_load_inv toggle_click_inv)
next
  case False
  have "theme_inv (step e p) = theme_inv p"
    using False
    by (auto simp add: theme_inv_def is_dark_def lightbox_step_frame step_getElementById
        split: option.splits)
  with inv show ?thesis by simp
qed

lemma run_theme_inv: "theme_inv p \<Longrightarrow> theme_inv (run es p)"
  by (induction es arbitrary: p) (simp_all add: step_theme_inv)

section \<open>The load and the click of theme.js, field by field\<close>

lemma theme_load_storage:
  "localStorage (theme_DOMContentLoaded p) = localStorage (applyTheme (loaded_env p) (loaded_theme p) p)"
  by (simp add: theme_DOMContentLoaded_applied split: option.splits)

lemma theme_load_dom:
  "body_classList (theme_DOMContentLoaded p) = body_classList (applyTheme (loaded_env p) (loaded_theme p) p)"
  "el (theme_DOMContentLoaded p) = el (applyTheme (loaded_env p) (loaded_theme p) p)"
  by (simp_all add: theme_DOMContentLoaded_applied split: option.splits)

lemma savedTheme_dark:
  "(savedTheme p = Some ''dark'') = (getItem (localStorage p) theme_key = Inr (Some ''dark''))"
  by (simp add: savedTheme_def split: sum.splits)

lemma theme_load_is_dark: "is_dark (theme_DOMContentLoaded p) = (savedTheme p = Some ''dark'')"
proof -
  have "is_dark (theme_DOMContentLoaded p) = is_dark (applyTheme (loaded_env p) (loaded_theme p) p)"
    by (simp add: is_dark_def theme_load_dom)
  then show ?thesis by (simp add: applyTheme_dark loaded_theme_def)
qed

lemma theme_load_icon:
  assumes "getElementById p ''themeToggleIcon'' = Some i"
  shows "textContent (el (theme_DOMContentLoaded p) i) = glyph_of (savedTheme p = Some ''dark'')"
proof -
  have "icon (loaded_env p) = Some i" using assms by (simp add: loaded_env_def)
  then have "textContent (el (applyTheme (loaded_env p) (loaded_theme p) p) i)
               = glyph_of (loaded_theme p = ''dark'')"
    by (rule applyTheme_icon)
  then show ?thesis by (simp add: theme_load_dom loaded_theme_def)
qed

lemma toggle_click_applied:
  "toggle_listener p = Some env \<Longrightarrow>
   toggle_click p = applyTheme env (theme_name (\<not> is_dark p)) p"
  by (simp add: toggle_click_def is_dark_def theme_name_def)

lemma applyTheme_storage_independent:
  "body_classList (applyTheme env t (p\<lparr>localStorage := st\<rparr>)) = body_classList (applyTheme env t p)"
  "el (applyTheme env t (p\<lparr>localStorage := st\<rparr>)) = el (applyTheme env t p)"
  by (simp_all add: applyTheme_body applyTheme_el fun_eq_iff)

lemma getElementById_storage:
  "getElementById (p\<lparr>localStorage := st\<rparr>) i = getElementById p i"
  by (simp add: getElementById_def)

lemma theme_load_write_flag:
  "body_classList (theme_DOMContentLoaded (p\<lparr>localStorage := (localStorage p)\<lparr>setItem_throws := b\<rparr>\<rparr>))
     = body_classList (theme_DOMContentLoaded p)"
  "el (theme_DOMContentLoaded (p\<lparr>localStorage := (localStorage p)\<lparr>setItem_throws := b\<rparr>\<rparr>))
     = el (theme_DOMContentLoaded p)"
proof -
  let ?p' = "p\<lparr>localStorage := (localStorage p)\<lparr>setItem_throws := b\<rparr>\<rparr>"
  have s: "savedTheme ?p' = savedTheme p"
    by (simp add: savedTheme_def getItem_def)
  have e: "loaded_env ?p' = loaded_env p"
    by (simp add: loaded_env_def getElementById_storage)
  have t: "loaded_theme ?p' = loaded_theme p"
    by (simp only: loaded_theme_def s)
  show "body_classList (theme_DOMContentLoaded ?p') = body_classList (theme_DOMContentLoaded p)"
    by (simp only: theme_load_dom e t applyTheme_storage_independent)
  show "el (theme_DOMContentLoaded ?p') = el (theme_DOMContentLoaded p)"
    by (simp only: theme_load_dom e t applyTheme_storage_independent)
qed

text \<open>No exception leaves a function of theme.js.\<close>

lemma applyTheme_exn_returns: "applyTheme_exn env t p = Inr (applyTheme env t p)"
  by (simp add: applyTheme_exn_def applyTheme_def try_catch_def Let_def split: sum.splits)

lemma savedTheme_exn:
  "try_catch (getItem (localStorage p) theme_key) (\<lambda>e. Inr None) = Inr (savedTheme p)"
  by (simp add: try_catch_def savedTheme_def split: sum.splits)

lemma theme_DOMContentLoaded_exn_returns:
  "theme_DOMContentLoaded_exn p = Inr (theme_DOMContentLoaded p)"
  by (simp add: theme_DOMContentLoaded_exn_def theme_DOMContentLoaded_def savedTheme_exn
      applyTheme_exn_returns Let_def split: option.splits)

lemma toggle_click_exn_returns: "toggle_click_exn p = Inr (toggle_click p)"
  by (simp add: toggle_click_exn_def toggle_click_def applyTheme_exn_returns Let_def
      split: option.splits)

lemma step_items_other:
  assumes "k \<noteq> theme_key"
  shows "items (localStorage (step e p)) k = items (localStorage p) k"
proof (cases "e = ThemeLoad \<or> e = ToggleClick")
  case False
  then show ?thesis by (simp add: lightbox_step_frame)
next
  case True
  then show ?thesis
  proof
    assume "e = ThemeLoad"
    then show ?thesis using assms by (simp add: theme_load_storage applyTheme_items_other)
  next
    assume e: "e = ToggleClick"
    show ?thesis
    proof (cases "toggle_listener p")
      case None
      with e show ?thesis by (simp add: toggle_click_def)
    next
      case (Some env)
      with e assms show ?thesis
        by (simp add: toggle_click_applied applyTheme_items_other)
    qed
  qed
qed

text \<open>
  With writes that do not throw, a stored "dark" or "light" stays one of the two under
  every step.
\<close>

lemma step_stored_valid:
  assumes "\<not> setItem_throws (localStorage p)"
    and "items (localStorage p) theme_key = Some ''dark''
         \<or> items (localStorage p) theme_key = Some ''light''"
  shows "\<not> setItem_throws (localStorage (step e p))
       \<and> (items (localStorage (step e p)) theme_key = Some ''dark''
          \<or> items (localStorage (step e p)) theme_key = Some ''light'')"
proof (cases "e = ThemeLoad \<or> e = ToggleClick")
  case False
  with assms show ?thesis by (simp add: lightbox_step_frame)
next
  case True
  then show ?thesis
  proof
    assume "e = ThemeLoad"
    then show ?thesis
      using assms(1) loaded_theme_cases [of p]
      by (auto simp: theme_load_storage applyTheme_throws applyTheme_stored)
  next
    assume e: "e = ToggleClick"
    show ?thesis
    proof (cases "toggle_listener p")
      case None
      with e assms show ?thesis by (simp add: toggle_click_def)
    next
      case (Some env)
      with e assms(1) show ?thesis
        by (simp add: toggle_click_applied applyTheme_throws applyTheme_stored theme_name_def)
    qed
  qed
qed

lemma run_stored_valid:
  "\<not> setItem_throws (localStorage p) \<Longrightarrow>
   items (localStorage p) theme_key = Some ''dark''
     \<or> items (localStorage p) theme_key = Some ''light'' \<Longrightarrow>
   items (localStorage (run es p)) theme_key = Some ''dark''
     \<or> items (localStorage (run es p)) theme_key = Some ''light''"
proof (induction es arbitrary: p)
  case Nil
  then show ?case by simp
next
  case (Cons e es)
  have "\<not> setItem_throws (localStorage (step e p))
       \<and> (items (localStorage (step e p)) theme_key = Some ''dark''
          \<or> items (localStorage (step e p)) theme_key = Some ''light'')"
    using Cons.prems by (rule step_stored_valid)
  then show ?case using Cons.IH [of "step e p"] by simp
qed

section \<open>The example document, evaluated\<close>

lemmas example_defs = fresh_page_def example_el_def blank_def store_def example_env_def
  getElementById_def querySelectorAll_class_def theme_key_def

lemma example_ids:
  "getElementById (example_page st) ''lightboxOverlay'' = Some 10"
  "getElementById (example_page st) ''lightboxImage'' = Some 11"
  "getElementById (example_page st) ''lightboxClose'' = Some 12"
  "getElementById (example_page st) ''themeToggle'' = Some 14"
  "getElementById (example_page st) ''themeToggleIcon'' = Some 15"
  "querySelectorAll_class (example_page st) ''js-lightbox'' = [13]"
  by (simp_all add: example_defs)

lemma example_storage:
  "getItem (localStorage (example_page (store [] False))) theme_key = Inr None"
  "getItem (localStorage (example_page (store [(theme_key, ''dark'')] False))) theme_key
     = Inr (Some ''dark'')"
  "items (localStorage (example_page (store kvs b))) = map_of kvs"
  "setItem_throws (localStorage (example_page (store kvs b))) = b"
  "getItem_throws (localStorage (example_page (store kvs b))) = b"
  by (simp_all add: getItem_def fresh_page_def store_def)

lemma example_loaded:
  "lightbox_listeners (lightbox_DOMContentLoaded (example_page st)) = Some example_env"
  by (simp add: lightbox_DOMContentLoaded_def example_ids) (simp add: example_env_def)

lemma example_loaded_el:
  "el (lightbox_DOMContentLoaded (example_page st)) = example_el"
  by (simp add: lightbox_DOMContentLoaded_def example_ids) (simp add: fresh_page_def)

lemma example_trigger:
  "src (example_el 13) = ''/static/img/cat.jpg''" "alt (example_el 13) = Some ''cat''"
  by (simp_all add: example_el_def blank_def)

lemma example_open:
  "lightbox_listeners (trigger_click 13 (lightbox_DOMContentLoaded (example_page st))) = Some example_env"
  "classList_contains ''is-open''
     (classList (el (trigger_click 13 (lightbox_DOMContentLoaded (example_page st))) 10))"
  "alt (el (trigger_click 13 (lightbox_DOMContentLoaded (example_page st))) 11) = Some ''cat''"
proof -
  let ?p = "lightbox_DOMContentLoaded (example_page st)"
  have t: "trigger_click 13 ?p = openLightbox example_env (src (el ?p 13)) (alt (el ?p 13)) ?p"
    by (simp add: trigger_click_def example_loaded) (simp add: example_env_def)
  show "lightbox_listeners (trigger_click 13 ?p) = Some example_env"
    by (simp add: t openLightbox_frame example_loaded)
  have o: "overlay example_env = 10" "bigImg example_env = 11" by (simp_all add: example_env_def)
  show "classList_contains ''is-open'' (classList (el (trigger_click 13 ?p) 10))"
    using openLightbox_open(1) [of example_env "src (el ?p 13)" "alt (el ?p 13)" ?p]
    by (simp add: t o classList_contains_def)
  show "alt (el (trigger_click 13 ?p) 11) = Some ''cat''"
    using openLightbox_open(3) [of example_env "src (el ?p 13)" "alt (el ?p 13)" ?p]
    by (simp add: t o example_loaded_el example_trigger or_empty_def)
qed

lemma example_theme_loaded:
  "toggle_listener (theme_DOMContentLoaded (example_page st)) = Some (loaded_env (example_page st))"
  by (simp add: theme_DOMContentLoaded_applied example_ids)

text \<open>
  The example without the close control and without the theme elements: the overlay,
  the enlarged image and the trigger image only.
\<close>

lemma example_bare_ids:
  "getElementById (fresh_page [10, 11, 13] example_el [] st) ''lightboxOverlay'' = Some 10"
  "getElementById (fresh_page [10, 11, 13] example_el [] st) ''lightboxImage'' = Some 11"
  "getElementById (fresh_page [10, 11, 13] example_el [] st) ''lightboxClose'' = None"
  "querySelectorAll_class (fresh_page [10, 11, 13] example_el [] st) ''js-lightbox'' = [13]"
  by (simp_all add: example_defs)

lemma example_bare_open:
  "classList_contains ''is-open''
     (classList (el (run [LightboxLoad, TriggerClick 13] (fresh_page [10, 11, 13] example_el [] st)) 10))"
proof -
  let ?d = "fresh_page [10, 11, 13] example_el [] st"
  have m: "LightboxLoad \<in> set [LightboxLoad]" by simp
  have l: "lightbox_listeners (run [LightboxLoad] ?d) =
             Some \<lparr>overlay = 10, bigImg = 11, closeBtn = None, triggers = [13]\<rparr>"
    using reachable_env [OF refl m example_bare_ids(1) example_bare_ids(2), of st]
    by (simp add: example_bare_ids)
  show ?thesis
    using trigger_click_is_open [OF l, of 13] by simp
qed

section \<open>The claims\<close>

text \<open>
  Claim C1. On page load the dark-theme class is on the body exactly when the read of the
  theme key returns "dark", and the icon (when the document has one) shows the moon in
  that case and the sun otherwise: a stored "dark" or "light" is applied, and every other
  outcome of the read (another string, no value, a throwing read) applies "light".
\<close>

theorem load_applies_saved_theme:
  "(classList_contains ''dark-theme'' (body_classList (theme_DOMContentLoaded p))
      = (getItem (localStorage p) theme_key = Inr (Some ''dark'')))
   \<and> (\<forall>i. getElementById p ''themeToggleIcon'' = Some i \<longrightarrow>
          textContent (el (theme_DOMContentLoaded p) i)
            = (if getItem (localStorage p) theme_key = Inr (Some ''dark'')
               then moon_glyph else sun_glyph))"
  using theme_load_is_dark [of p]
  by (simp add: theme_load_icon savedTheme_dark glyph_of_def is_dark_def)

theorem load_applies_saved_theme_witness:
  "getElementById (example_page (store [(theme_key, ''dark'')] False)) ''themeToggleIcon'' = Some 15
   \<and> classList_contains ''dark-theme''
        (body_classList (theme_DOMContentLoaded (example_page (store [(theme_key, ''dark'')] False))))
   \<and> textContent (el (theme_DOMContentLoaded (example_page (store [(theme_key, ''dark'')] False))) 15)
        = moon_glyph
   \<and> \<not> classList_contains ''dark-theme''
        (body_classList (theme_DOMContentLoaded (example_page (store [] False))))"
  using load_applies_saved_theme [of "example_page (store [(theme_key, ''dark'')] False)"]
    load_applies_saved_theme [of "example_page (store [] False)"]
  by (simp add: example_ids example_storage)

text \<open>
  Claim C2. On a document that has the overlay and the enlarged image, once the load of
  lightbox.js has run, whatever happened since (the lightbox open or already closed,
  with or without a close control): a click on the overlay whose target is the overlay
  itself, a click whose target is the close control, and an Escape key press each leave
  the overlay without the is-open class and the enlarged image with the empty source.
\<close>

theorem closing_closes:
  assumes "p = run evs (fresh_page ns f cs st)"
    and "LightboxLoad \<in> set evs"
    and "getElementById (fresh_page ns f cs st) ''lightboxOverlay'' = Some ov"
    and "getElementById (fresh_page ns f cs st) ''lightboxImage'' = Some bi"
    and "q = overlay_click ov p
         \<or> (\<exists>c. getElementById (fresh_page ns f cs st) ''lightboxClose'' = Some c
                \<and> q = overlay_click c p)
         \<or> q = document_keydown ''Escape'' p"
  shows "\<not> classList_contains ''is-open'' (classList (el q ov))
         \<and> src (el q bi) = ''''"
proof -
  let ?env = "\<lparr>overlay = ov, bigImg = bi,
                closeBtn = getElementById (fresh_page ns f cs st) ''lightboxClose'',
                triggers = querySelectorAll_class (fresh_page ns f cs st) ''js-lightbox''\<rparr>"
  have l: "lightbox_listeners p = Some ?env"
    using assms(1-4) by (rule reachable_env)
  have "q = closeLightbox ?env p"
    using assms(5) l by (auto simp: overlay_click_def document_keydown_def)
  then show ?thesis
    using closeLightbox_closed [of ?env p] by (simp add: classList_contains_def)
qed

theorem closing_closes_witness:
  "LightboxLoad \<in> set [LightboxLoad, TriggerClick 13]
   \<and> getElementById (example_page (store [] False)) ''lightboxOverlay'' = Some 10
   \<and> getElementById (example_page (store [] False)) ''lightboxImage'' = Some 11
   \<and> getElementById (example_page (store [] False)) ''lightboxClose'' = Some 12
   \<and> classList_contains ''is-open''
       (classList (el (run [LightboxLoad, TriggerClick 13] (example_page (store [] False))) 10))
   \<and> \<not> classList_contains ''is-open''
       (classList (el (overlay_click 12
          (run [LightboxLoad, TriggerClick 13] (example_page (store [] False)))) 10))
   \<and> src (el (overlay_click 12
          (run [LightboxLoad, TriggerClick 13] (example_page (store [] False)))) 11) = ''''
   \<and> getElementById (fresh_page [10, 11, 13] example_el [] (store [] False)) ''lightboxClose'' = None
   \<and> classList_contains ''is-open''
       (classList (el (run [LightboxLoad, TriggerClick 13]
          (fresh_page [10, 11, 13] example_el [] (store [] False))) 10))
   \<and> \<not> classList_contains ''is-open''
       (classList (el (document_keydown ''Escape''
          (run [LightboxLoad, TriggerClick 13]
             (fresh_page [10, 11, 13] example_el [] (store [] False)))) 10))
   \<and> src (el (document_keydown ''Escape''
          (run [LightboxLoad, TriggerClick 13]
             (fresh_page [10, 11, 13] example_el [] (store [] False)))) 11) = ''''"
proof -
  let ?d = "example_page (store [] False)"
  let ?b = "fresh_page [10, 11, 13] example_el [] (store [] False)"
  let ?es = "[LightboxLoad, TriggerClick 13]"
  have m: "LightboxLoad \<in> set ?es" by simp
  have c: "overlay_click 12 (run ?es ?d) = overlay_click (10::nat) (run ?es ?d)
         \<or> (\<exists>c. getElementById ?d ''lightboxClose'' = Some c
                \<and> overlay_click 12 (run ?es ?d) = overlay_click c (run ?es ?d))
         \<or> overlay_click 12 (run ?es ?d) = document_keydown ''Escape'' (run ?es ?d)"
    by (simp add: example_ids)
  have k: "document_keydown ''Escape'' (run ?es ?b) = overlay_click (10::nat) (run ?es ?b)
         \<or> (\<exists>c. getElementById ?b ''lightboxClose'' = Some c
                \<and> document_keydown ''Escape'' (run ?es ?b) = overlay_click c (run ?es ?b))
         \<or> document_keydown ''Escape'' (run ?es ?b) = document_keydown ''Escape'' (run ?es ?b)"
    by simp
  have o: "classList_contains ''is-open'' (classList (el (run ?es ?d) 10))"
    using example_open(2) [of "store [] False"] by simp
  show ?thesis
    using closing_closes [OF refl m example_ids(1) example_ids(2) c]
      closing_closes [OF refl m example_bare_ids(1) example_bare_ids(2) k]
      m o example_bare_open [of "store [] False"]
    by (simp only: example_ids example_bare_ids simp_thms)
qed

text \<open>
  Claim C3. On a document that has the overlay and the enlarged image, once the load of
  lightbox.js has run, whatever happened since: a click on a trigger image (an element
  of class js-lightbox) with source S and alt text A leaves the overlay with the is-open
  class and the enlarged image with source S and with alt text A, the empty string when
  A is absent.
\<close>

theorem trigger_click_opens:
  assumes "p = run evs (fresh_page ns f cs st)"
    and "LightboxLoad \<in> set evs"
    and "getElementById (fresh_page ns f cs st) ''lightboxOverlay'' = Some ov"
    and "getElementById (fresh_page ns f cs st) ''lightboxImage'' = Some bi"
    and "img \<in> set (querySelectorAll_class (fresh_page ns f cs st) ''js-lightbox'')"
  shows "classList_contains ''is-open'' (classList (el (trigger_click img p) ov))
       \<and> src (el (trigger_click img p) bi) = src (el p img)
       \<and> alt (el (trigger_click img p) bi)
            = Some (case alt (el p img) of None \<Rightarrow> '''' | Some a \<Rightarrow> a)"
proof -
  let ?env = "\<lparr>overlay = ov, bigImg = bi,
                closeBtn = getElementById (fresh_page ns f cs st) ''lightboxClose'',
                triggers = querySelectorAll_class (fresh_page ns f cs st) ''js-lightbox''\<rparr>"
  have l: "lightbox_listeners p = Some ?env"
    using assms(1-4) by (rule reachable_env)
  have q: "trigger_click img p = openLightbox ?env (src (el p img)) (alt (el p img)) p"
    using l assms(5) by (simp add: trigger_click_def)
  have o: "or_empty (alt (el p img)) = (case alt (el p img) of None \<Rightarrow> '''' | Some a \<Rightarrow> a)"
    by (simp add: or_empty_def split: option.splits)
  show ?thesis
    using openLightbox_open [of ?env "src (el p img)" "alt (el p img)" p] o
    by (simp add: q classList_contains_def)
qed

theorem trigger_click_opens_witness:
  "LightboxLoad \<in> set [LightboxLoad]
   \<and> getElementById (fresh_page [10, 11, 13] example_el [] (store [] False)) ''lightboxOverlay'' = Some 10
   \<and> getElementById (fresh_page [10, 11, 13] example_el [] (store [] False)) ''lightboxImage'' = Some 11
   \<and> 13 \<in> set (querySelectorAll_class (fresh_page [10, 11, 13] example_el [] (store [] False)) ''js-lightbox'')
   \<and> classList_contains ''is-open''
        (classList (el (trigger_click 13
           (run [LightboxLoad] (fresh_page [10, 11, 13] example_el [] (store [] False)))) 10))
   \<and> src (el (trigger_click 13
           (run [LightboxLoad] (fresh_page [10, 11, 13] example_el [] (store [] False)))) 11)
        = ''/static/img/cat.jpg''
   \<and> alt (el (trigger_click 13
           (run [LightboxLoad] (fresh_page [10, 11, 13] example_el [] (store [] False)))) 11)
        = Some ''cat''"
proof -
  let ?b = "fresh_page [10, 11, 13] example_el [] (store [] False)"
  have m: "LightboxLoad \<in> set [LightboxLoad]" by simp
  have t: "13 \<in> set (querySelectorAll_class ?b ''js-lightbox'')"
    by (simp add: example_bare_ids)
  have e: "el (run [LightboxLoad] ?b) 13 = example_el 13"
    by (simp add: lightbox_DOMContentLoaded_def example_bare_ids) (simp add: fresh_page_def)
  show ?thesis
    using trigger_click_opens [OF refl m example_bare_ids(1) example_bare_ids(2) t] m t e
      example_trigger
    by (simp add: example_bare_ids)
qed

text \<open>
  Claim C4, as amended. The storage is written by \<open>applyTheme\<close> alone, which the load
  listener of theme.js and the click listener of the toggle call: every other event
  leaves the storage as it is, no event changes another key, and a load that reads
  "dark" or "light" leaves the storage as it was (it writes the value back).
\<close>

theorem storage_written_by_apply_only:
  "(e \<noteq> ThemeLoad \<and> e \<noteq> ToggleClick \<longrightarrow> localStorage (step e p) = localStorage p)
   \<and> (\<forall>k. k \<noteq> theme_key \<longrightarrow> items (localStorage (step e p)) k = items (localStorage p) k)
   \<and> (getItem (localStorage p) theme_key = Inr (Some ''dark'')
        \<or> getItem (localStorage p) theme_key = Inr (Some ''light'')
      \<longrightarrow> localStorage (step ThemeLoad p) = localStorage p)"
proof -
  have a: "e \<noteq> ThemeLoad \<and> e \<noteq> ToggleClick \<longrightarrow> localStorage (step e p) = localStorage p"
    by (simp add: lightbox_step_frame)
  have b: "\<forall>k. k \<noteq> theme_key \<longrightarrow> items (localStorage (step e p)) k = items (localStorage p) k"
    by (simp add: step_items_other)
  have c: "localStorage (step ThemeLoad p) = localStorage p"
    if "getItem (localStorage p) theme_key = Inr (Some ''dark'')
        \<or> getItem (localStorage p) theme_key = Inr (Some ''light'')"
  proof -
    from that have i: "items (localStorage p) theme_key = Some (loaded_theme p)"
      by (auto simp: getItem_def loaded_theme_def savedTheme_def split: if_splits)
    then have "(items (localStorage p))(theme_key \<mapsto> loaded_theme p) = items (localStorage p)"
      by (rule map_upd_triv)
    then show ?thesis
      by (simp add: theme_load_storage applyTheme_storage)
  qed
  show ?thesis using a b c by blast
qed

theorem storage_written_by_apply_only_witness:
  "LightboxLoad \<noteq> ThemeLoad \<and> LightboxLoad \<noteq> ToggleClick
   \<and> localStorage (step LightboxLoad (example_page (store [(theme_key, ''dark'')] False)))
       = localStorage (example_page (store [(theme_key, ''dark'')] False))
   \<and> ''other-key'' \<noteq> theme_key
   \<and> items (localStorage (step ToggleClick
         (theme_DOMContentLoaded (example_page (store [(theme_key, ''dark'')] False))))) ''other-key''
       = items (localStorage (theme_DOMContentLoaded
           (example_page (store [(theme_key, ''dark'')] False)))) ''other-key''
   \<and> getItem (localStorage (example_page (store [(theme_key, ''dark'')] False))) theme_key
       = Inr (Some ''dark'')
   \<and> localStorage (step ThemeLoad (example_page (store [(theme_key, ''dark'')] False)))
       = localStorage (example_page (store [(theme_key, ''dark'')] False))"
proof -
  let ?d = "example_page (store [(theme_key, ''dark'')] False)"
  have k: "''other-key'' \<noteq> theme_key" by (simp add: theme_key_def)
  show ?thesis
    using storage_written_by_apply_only [of LightboxLoad ?d]
      storage_written_by_apply_only [of ToggleClick "theme_DOMContentLoaded ?d"] k
    by (simp add: example_storage)
qed

text \<open>
  The claim as it was stated fails: the load listener writes. On the example document
  with an empty, working storage, the storage after the load is not the storage before.
\<close>

theorem load_writes_storage_counterexample:
  "localStorage (step ThemeLoad (example_page (store [] False)))
     \<noteq> localStorage (example_page (store [] False))"
proof
  let ?d = "example_page (store [] False)"
  assume "localStorage (step ThemeLoad ?d) = localStorage ?d"
  then have "items (localStorage (theme_DOMContentLoaded ?d)) theme_key = items (localStorage ?d) theme_key"
    by simp
  moreover have "items (localStorage ?d) theme_key = None"
    by (simp add: example_storage)
  moreover have "items (localStorage (theme_DOMContentLoaded ?d)) theme_key = Some ''light''"
    by (simp add: theme_load_storage applyTheme_storage loaded_theme_def savedTheme_def
        example_storage)
  ultimately show False by simp
qed

text \<open>
  Claim C5, as amended. \<open>closeLightbox\<close> clears the source of the enlarged image and
  takes the is-open class off the overlay; it leaves the alt text of every element,
  the enlarged image included, as it was.
\<close>

theorem close_clears_source_only:
  "src (el (closeLightbox env p) (bigImg env)) = ''''
   \<and> \<not> classList_contains ''is-open'' (classList (el (closeLightbox env p) (overlay env)))
   \<and> alt (el (closeLightbox env p) n) = alt (el p n)"
  by (simp add: closeLightbox_closed closeLightbox_frame classList_contains_def)

text \<open>
  The claim as it was stated fails: after opening the example's trigger image (alt text
  "cat") and closing with Escape, the alt text of the enlarged image is still "cat".
\<close>

theorem close_keeps_alt_counterexample:
  "alt (el (document_keydown ''Escape''
         (trigger_click 13 (lightbox_DOMContentLoaded (example_page (store [] False))))) 11)
     = Some ''cat''
   \<and> alt (el (document_keydown ''Escape''
         (trigger_click 13 (lightbox_DOMContentLoaded (example_page (store [] False))))) 11)
     \<noteq> Some ''''"
proof -
  let ?p = "trigger_click 13 (lightbox_DOMContentLoaded (example_page (store [] False)))"
  have "alt (el (document_keydown ''Escape'' ?p) 11) = alt (el ?p 11)"
    by (simp add: document_keydown_def closeLightbox_frame split: option.splits)
  then show ?thesis by (simp add: example_open)
qed

text \<open>
  Claim C6. On every page reached from a fresh document, two clicks on the toggle give
  back the dark-theme class of the body, the text of the icon (of every element) and
  the stored items as they were before the two clicks.
\<close>

theorem toggle_twice_restores:
  assumes "p = run evs (fresh_page ns f cs st)"
  shows "classList_contains ''dark-theme'' (body_classList (toggle_click (toggle_click p)))
           = classList_contains ''dark-theme'' (body_classList p)
       \<and> textContent (el (toggle_click (toggle_click p)) n) = textContent (el p n)
       \<and> items (localStorage (toggle_click (toggle_click p))) = items (localStorage p)"
proof (cases "toggle_listener p")
  case None
  then show ?thesis by (simp add: toggle_click_def)
next
  case (Some env)
  let ?t1 = "theme_name (\<not> is_dark p)"
  let ?q = "applyTheme env ?t1 p"
  let ?t2 = "theme_name (is_dark p)"
  have inv: "theme_inv p"
    using assms by (simp add: run_theme_inv fresh_page_inv)
  have q1: "toggle_click p = ?q" using Some by (rule toggle_click_applied)
  have "toggle_listener ?q = Some env" using Some by (simp add: applyTheme_frame)
  then have "toggle_click ?q = applyTheme env (theme_name (\<not> is_dark ?q)) ?q"
    by (rule toggle_click_applied)
  moreover have "is_dark ?q = (\<not> is_dark p)"
    by (simp add: applyTheme_dark theme_name_def)
  ultimately have q2: "toggle_click (toggle_click p) = applyTheme env ?t2 ?q"
    using q1 by simp
  have d: "(?t2 = ''dark'') = is_dark p" by (simp add: theme_name_def)
  have c: "is_dark (toggle_click (toggle_click p)) = is_dark p"
    by (simp only: q2 applyTheme_dark d)
  have x: "textContent (el (toggle_click (toggle_click p)) n) = textContent (el p n)"
  proof (cases "icon env = Some n")
    case True
    then have "textContent (el p n) = glyph_of (is_dark p)"
      using inv Some by (simp add: theme_inv_def)
    then show ?thesis using True by (simp only: q2 applyTheme_icon d)
  next
    case False
    then show ?thesis by (simp add: q2 applyTheme_textContent_other)
  qed
  have s: "items (localStorage (toggle_click (toggle_click p))) = items (localStorage p)"
  proof (cases "setItem_throws (localStorage p)")
    case True
    then show ?thesis by (simp add: q2 applyTheme_storage)
  next
    case False
    then have "items (localStorage p) theme_key = Some ?t2"
      using inv Some by (simp add: theme_inv_def)
    then have "(items (localStorage p))(theme_key \<mapsto> ?t2) = items (localStorage p)"
      by (rule map_upd_triv)
    then show ?thesis using False by (simp add: q2 applyTheme_storage)
  qed
  show ?thesis using c x s by (simp add: is_dark_def)
qed

theorem toggle_twice_restores_witness:
  "classList_contains ''dark-theme''
     (body_classList (toggle_click (run [ThemeLoad] (example_page (store [] False)))))
   \<and> \<not> classList_contains ''dark-theme''
     (body_classList (toggle_click (toggle_click (run [ThemeLoad] (example_page (store [] False))))))
   \<and> textContent (el (toggle_click (toggle_click (run [ThemeLoad] (example_page (store [] False))))) 15)
       = sun_glyph
   \<and> items (localStorage
        (toggle_click (toggle_click (run [ThemeLoad] (example_page (store [] False)))))) theme_key
       = Some ''light''"
proof -
  let ?d = "example_page (store [] False)"
  let ?p = "run [ThemeLoad] ?d"
  have g: "savedTheme ?d \<noteq> Some ''dark''"
    by (simp add: savedTheme_def example_storage)
  have l: "toggle_listener ?p = Some (loaded_env ?d)"
    by (simp add: example_theme_loaded)
  have n: "\<not> is_dark ?p"
    using g by (simp add: theme_load_is_dark)
  have i: "textContent (el ?p 15) = sun_glyph"
    using g by (simp add: theme_load_icon example_ids glyph_of_def)
  have s: "items (localStorage ?p) theme_key = Some ''light''"
    using g by (simp add: theme_load_storage applyTheme_storage loaded_theme_def example_storage)
  have "is_dark (toggle_click ?p)"
    using n by (simp only: toggle_click_applied [OF l] applyTheme_dark) (simp add: theme_name_def)
  then show ?thesis
    using toggle_twice_restores [OF refl, of "[ThemeLoad]" "[10, 11, 12, 13, 14, 15]" example_el "[]"
        "store [] False" 15] n i s
    by (simp add: is_dark_def)
qed

text \<open>
  Claim C7. On every page reached from a fresh document, a click that reaches the
  listener of the overlay with the enlarged image as its target changes nothing: the
  overlay keeps its classes (an open lightbox stays open) and the enlarged image keeps
  its source and alt text.
\<close>

theorem click_on_image_keeps_open:
  assumes "p = run evs (fresh_page ns f cs st)"
    and "getElementById (fresh_page ns f cs st) ''lightboxImage'' = Some bi"
  shows "overlay_click bi p = p"
proof (cases "lightbox_listeners p")
  case None
  then show ?thesis by (simp add: overlay_click_def)
next
  case (Some env)
  have inv: "lightbox_inv p"
    using assms(1) by (simp add: run_lightbox_inv fresh_page_inv)
  have b: "getElementById p ''lightboxImage'' = Some bi"
    using assms by (simp add: run_getElementById)
  have ov: "getElementById p ''lightboxOverlay'' = Some (overlay env)"
    and cl: "closeBtn env = getElementById p ''lightboxClose''"
    using inv Some by (simp_all add: lightbox_inv_def)
  have i: "el_id (el p bi) = ''lightboxImage''"
    using b by (rule getElementById_id)
  have "el_id (el p (overlay env)) = ''lightboxOverlay''"
    using ov by (rule getElementById_id)
  with i have n1: "bi \<noteq> overlay env" by auto
  have n2: "Some bi \<noteq> closeBtn env"
  proof
    assume "Some bi = closeBtn env"
    then have "getElementById p ''lightboxClose'' = Some bi" using cl by simp
    then have "el_id (el p bi) = ''lightboxClose''" by (rule getElementById_id)
    with i show False by simp
  qed
  show ?thesis using Some n1 n2 by (simp add: overlay_click_def)
qed

theorem click_on_image_keeps_open_witness:
  "getElementById (example_page (store [] False)) ''lightboxImage'' = Some 11
   \<and> overlay_click 11 (run [LightboxLoad, TriggerClick 13] (example_page (store [] False)))
       = run [LightboxLoad, TriggerClick 13] (example_page (store [] False))
   \<and> classList_contains ''is-open''
       (classList (el (overlay_click 11
          (run [LightboxLoad, TriggerClick 13] (example_page (store [] False)))) 10))"
proof -
  let ?d = "example_page (store [] False)"
  have g: "getElementById ?d ''lightboxImage'' = Some 11" by (simp add: example_ids)
  have k: "overlay_click 11 (run [LightboxLoad, TriggerClick 13] ?d) = run [LightboxLoad, TriggerClick 13] ?d"
    by (rule click_on_image_keeps_open [OF refl g])
  have o: "classList_contains ''is-open'' (classList (el (run [LightboxLoad, TriggerClick 13] ?d) 10))"
    using example_open(2) [of "store [] False"] by simp
  show ?thesis using g k o by simp
qed

text \<open>
  Claim C8. No exception leaves the load listener, the click listener of the toggle or
  \<open>applyTheme\<close>, whatever the storage does: each returns normally, with the page
  that the functions above compute. A throwing storage does not change what they do to
  the document: the classes of the body and the elements after \<open>applyTheme\<close> and
  after a toggle click are those obtained with any other storage; after the load they
  are those obtained with the same storage whose writes work, so that a stored theme
  that can be read is applied even when the write throws; when writes throw, the
  storage is left as it is; when the read on load throws, the load does to the document
  what it does with a working, empty storage, and the body is without the dark-theme
  class.
\<close>

theorem storage_errors_ignored:
  "theme_DOMContentLoaded_exn p = Inr (theme_DOMContentLoaded p)
   \<and> toggle_click_exn p = Inr (toggle_click p)
   \<and> applyTheme_exn env t p = Inr (applyTheme env t p)
   \<and> body_classList (applyTheme env t p) = body_classList (applyTheme env t (p\<lparr>localStorage := st\<rparr>))
   \<and> el (applyTheme env t p) = el (applyTheme env t (p\<lparr>localStorage := st\<rparr>))
   \<and> body_classList (toggle_click p) = body_classList (toggle_click (p\<lparr>localStorage := st\<rparr>))
   \<and> el (toggle_click p) = el (toggle_click (p\<lparr>localStorage := st\<rparr>))
   \<and> body_classList (theme_DOMContentLoaded p)
       = body_classList (theme_DOMContentLoaded
           (p\<lparr>localStorage := (localStorage p)\<lparr>setItem_throws := False\<rparr>\<rparr>))
   \<and> el (theme_DOMContentLoaded p)
       = el (theme_DOMContentLoaded (p\<lparr>localStorage := (localStorage p)\<lparr>setItem_throws := False\<rparr>\<rparr>))
   \<and> (setItem_throws (localStorage p) \<longrightarrow>
        localStorage (applyTheme env t p) = localStorage p
        \<and> localStorage (toggle_click p) = localStorage p
        \<and> localStorage (theme_DOMContentLoaded p) = localStorage p)
   \<and> (getItem_throws (localStorage p) \<longrightarrow>
        body_classList (theme_DOMContentLoaded p)
          = body_classList (theme_DOMContentLoaded (p\<lparr>localStorage := store [] False\<rparr>))
        \<and> el (theme_DOMContentLoaded p)
          = el (theme_DOMContentLoaded (p\<lparr>localStorage := store [] False\<rparr>))
        \<and> \<not> classList_contains ''dark-theme'' (body_classList (theme_DOMContentLoaded p)))"
proof -
  let ?w = "store [] False"
  have x: "theme_DOMContentLoaded_exn p = Inr (theme_DOMContentLoaded p)"
    "toggle_click_exn p = Inr (toggle_click p)"
    "applyTheme_exn env t p = Inr (applyTheme env t p)"
    by (rule theme_DOMContentLoaded_exn_returns, rule toggle_click_exn_returns,
        rule applyTheme_exn_returns)
  have a: "body_classList (toggle_click p) = body_classList (toggle_click (p\<lparr>localStorage := st\<rparr>))"
    "el (toggle_click p) = el (toggle_click (p\<lparr>localStorage := st\<rparr>))"
    by (simp_all add: toggle_click_def Let_def applyTheme_storage_independent split: option.splits)
  have b: "localStorage (applyTheme env t p) = localStorage p
        \<and> localStorage (toggle_click p) = localStorage p
        \<and> localStorage (theme_DOMContentLoaded p) = localStorage p"
    if "setItem_throws (localStorage p)"
    using that
    by (simp add: theme_load_storage applyTheme_storage toggle_click_def Let_def split: option.splits)
  have c: "body_classList (theme_DOMContentLoaded p)
             = body_classList (theme_DOMContentLoaded (p\<lparr>localStorage := ?w\<rparr>))
        \<and> el (theme_DOMContentLoaded p) = el (theme_DOMContentLoaded (p\<lparr>localStorage := ?w\<rparr>))
        \<and> \<not> classList_contains ''dark-theme'' (body_classList (theme_DOMContentLoaded p))"
    if "getItem_throws (localStorage p)"
  proof -
    have l: "loaded_theme p = ''light''" "loaded_theme (p\<lparr>localStorage := ?w\<rparr>) = ''light''"
      using that by (simp_all add: loaded_theme_def savedTheme_def getItem_def store_def)
    have e: "loaded_env (p\<lparr>localStorage := ?w\<rparr>) = loaded_env p"
      by (simp add: loaded_env_def getElementById_storage)
    have "\<not> is_dark (applyTheme (loaded_env p) ''light'' p)"
      by (simp add: applyTheme_dark)
    then show ?thesis
      by (simp add: theme_load_dom l e applyTheme_storage_independent is_dark_def)
  qed
  have d: "body_classList (applyTheme env t p) = body_classList (applyTheme env t (p\<lparr>localStorage := st\<rparr>))"
    "el (applyTheme env t p) = el (applyTheme env t (p\<lparr>localStorage := st\<rparr>))"
    by (simp_all add: applyTheme_storage_independent)
  have f: "body_classList (theme_DOMContentLoaded p)
       = body_classList (theme_DOMContentLoaded
           (p\<lparr>localStorage := (localStorage p)\<lparr>setItem_throws := False\<rparr>\<rparr>))"
    "el (theme_DOMContentLoaded p)
       = el (theme_DOMContentLoaded (p\<lparr>localStorage := (localStorage p)\<lparr>setItem_throws := False\<rparr>\<rparr>))"
    by (simp_all only: theme_load_write_flag)
  show ?thesis
    using x a b c d f by blast
qed

theorem storage_errors_ignored_witness:
  "setItem_throws (localStorage (theme_DOMContentLoaded (example_page (store [] True))))
   \<and> getItem_throws (localStorage (example_page (store [] True)))
   \<and> \<not> classList_contains ''dark-theme''
        (body_classList (theme_DOMContentLoaded (example_page (store [] True))))
   \<and> localStorage (toggle_click (theme_DOMContentLoaded (example_page (store [] True))))
       = localStorage (theme_DOMContentLoaded (example_page (store [] True)))
   \<and> classList_contains ''dark-theme''
        (body_classList (toggle_click (theme_DOMContentLoaded (example_page (store [] True)))))
   \<and> setItem_throws (localStorage (example_page (write_blocked (store [(theme_key, ''dark'')] False))))
   \<and> \<not> getItem_throws (localStorage (example_page (write_blocked (store [(theme_key, ''dark'')] False))))
   \<and> classList_contains ''dark-theme''
        (body_classList (theme_DOMContentLoaded
           (example_page (write_blocked (store [(theme_key, ''dark'')] False)))))
   \<and> localStorage (theme_DOMContentLoaded
           (example_page (write_blocked (store [(theme_key, ''dark'')] False))))
       = localStorage (example_page (write_blocked (store [(theme_key, ''dark'')] False)))"
proof -
  let ?d = "example_page (store [] True)"
  let ?p = "theme_DOMContentLoaded ?d"
  let ?k = "example_page (write_blocked (store [(theme_key, ''dark'')] False))"
  have g: "getItem_throws (localStorage ?d)" "setItem_throws (localStorage ?d)"
    by (simp_all add: example_storage)
  have s: "setItem_throws (localStorage ?p)"
    using g by (simp add: theme_load_storage applyTheme_throws)
  have l: "toggle_listener ?p = Some (loaded_env ?d)"
    by (rule example_theme_loaded)
  have n: "\<not> classList_contains ''dark-theme'' (body_classList ?p)"
    using storage_errors_ignored [of ?d "loaded_env ?d" "''light''" "store [] False"] g
    by blast
  have k: "localStorage (toggle_click ?p) = localStorage ?p"
    using storage_errors_ignored [of ?p "loaded_env ?d" "''light''" "store [] False"] s
    by blast
  have t: "is_dark (toggle_click ?p)"
    using n by (simp only: toggle_click_applied [OF l] applyTheme_dark) (simp add: theme_name_def is_dark_def)
  have w: "setItem_throws (localStorage ?k)" "\<not> getItem_throws (localStorage ?k)"
    by (simp_all add: fresh_page_def write_blocked_def store_def)
  have u: "?k\<lparr>localStorage := (localStorage ?k)\<lparr>setItem_throws := False\<rparr>\<rparr>
             = example_page (store [(theme_key, ''dark'')] False)"
    by (simp add: fresh_page_def write_blocked_def store_def)
  have "is_dark (theme_DOMContentLoaded (example_page (store [(theme_key, ''dark'')] False)))"
    by (simp add: theme_load_is_dark savedTheme_dark example_storage)
  then have v: "classList_contains ''dark-theme'' (body_classList (theme_DOMContentLoaded ?k))"
    using storage_errors_ignored [of ?k "loaded_env ?k" "''dark''" "store [] False"] u
    by (simp add: is_dark_def)
  have y: "localStorage (theme_DOMContentLoaded ?k) = localStorage ?k"
    using storage_errors_ignored [of ?k "loaded_env ?k" "''dark''" "store [] False"] w(1)
    by blast
  show ?thesis
    using n k g s t w v y by (simp add: is_dark_def)
qed

text \<open>
  Claim C9. When the document has no element with the id lightboxOverlay or none with
  the id lightboxImage, then on every page reached from it the load listener of
  lightbox.js returns the page unchanged, no lightbox listener is registered, and a
  click on any element and any key press leave the page as it is.
\<close>

theorem missing_elements_disable_lightbox:
  assumes "p = run evs (fresh_page ns f cs st)"
    and "getElementById (fresh_page ns f cs st) ''lightboxOverlay'' = None
         \<or> getElementById (fresh_page ns f cs st) ''lightboxImage'' = None"
  shows "lightbox_DOMContentLoaded p = p \<and> lightbox_listeners p = None
       \<and> trigger_click img p = p \<and> document_keydown k p = p \<and> overlay_click t p = p"
proof -
  have inv: "lightbox_inv p"
    using assms(1) by (simp add: run_lightbox_inv fresh_page_inv)
  have g: "getElementById p ''lightboxOverlay'' = None \<or> getElementById p ''lightboxImage'' = None"
    using assms by (simp add: run_getElementById)
  have n: "lightbox_listeners p = None"
  proof (cases "lightbox_listeners p")
    case (Some env)
    with inv g show ?thesis by (auto simp: lightbox_inv_def)
  qed simp
  have l: "lightbox_DOMContentLoaded p = p"
    using g by (auto simp: lightbox_DOMContentLoaded_def split: option.splits)
  show ?thesis
    using n l by (simp add: trigger_click_def document_keydown_def overlay_click_def)
qed

theorem missing_elements_disable_lightbox_witness:
  "getElementById (fresh_page [13] example_el [] (store [] False)) ''lightboxOverlay'' = None
   \<and> trigger_click 13 (run [LightboxLoad] (fresh_page [13] example_el [] (store [] False)))
        = run [LightboxLoad] (fresh_page [13] example_el [] (store [] False))
   \<and> document_keydown ''Escape'' (run [LightboxLoad] (fresh_page [13] example_el [] (store [] False)))
        = run [LightboxLoad] (fresh_page [13] example_el [] (store [] False))
   \<and> run [LightboxLoad] (fresh_page [13] example_el [] (store [] False))
        = fresh_page [13] example_el [] (store [] False)"
proof -
  let ?d = "fresh_page [13] example_el [] (store [] False)"
  have g: "getElementById ?d ''lightboxOverlay'' = None"
    by (simp add: example_defs)
  have h: "getElementById ?d ''lightboxOverlay'' = None \<or> getElementById ?d ''lightboxImage'' = None"
    using g by simp
  have r: "run [LightboxLoad] ?d = ?d"
    using missing_elements_disable_lightbox [OF refl h, of "[]"] by simp
  show ?thesis
    using missing_elements_disable_lightbox [OF refl h, of "[LightboxLoad]" 13 "''Escape''"] g r
    by simp
qed

text \<open>
  Claim C10. When writes to the storage do not throw, the value stored under the theme
  key after the load listener of theme.js, and after any events that follow it (toggle
  clicks among them), is "dark" or "light"; a stored value that was neither, or no
  stored value, is "light" after the load.
\<close>

theorem stored_theme_stays_valid:
  assumes "\<not> setItem_throws (localStorage p)"
  shows "(items (localStorage (run es (theme_DOMContentLoaded p))) theme_key = Some ''dark''
          \<or> items (localStorage (run es (theme_DOMContentLoaded p))) theme_key = Some ''light'')
       \<and> (items (localStorage p) theme_key \<noteq> Some ''dark''
          \<and> items (localStorage p) theme_key \<noteq> Some ''light''
          \<longrightarrow> items (localStorage (theme_DOMContentLoaded p)) theme_key = Some ''light'')"
proof -
  let ?q = "theme_DOMContentLoaded p"
  have s: "items (localStorage ?q) theme_key = Some (loaded_theme p)"
    using assms by (simp add: theme_load_storage applyTheme_stored)
  have t: "\<not> setItem_throws (localStorage ?q)"
    using assms by (simp add: theme_load_storage applyTheme_throws)
  have v: "items (localStorage ?q) theme_key = Some ''dark''
           \<or> items (localStorage ?q) theme_key = Some ''light''"
    using s loaded_theme_cases [of p] by auto
  have a: "items (localStorage (run es ?q)) theme_key = Some ''dark''
           \<or> items (localStorage (run es ?q)) theme_key = Some ''light''"
    using t v by (rule run_stored_valid)
  have b: "loaded_theme p = ''light''" if "items (localStorage p) theme_key \<noteq> Some ''dark''"
    using that by (auto simp: loaded_theme_def savedTheme_def getItem_def)
  show ?thesis using a b s by simp
qed

theorem stored_theme_stays_valid_witness:
  "\<not> setItem_throws (localStorage (example_page (store [(theme_key, ''blue'')] False)))
   \<and> items (localStorage (example_page (store [(theme_key, ''blue'')] False))) theme_key = Some ''blue''
   \<and> items (localStorage (theme_DOMContentLoaded (example_page (store [(theme_key, ''blue'')] False))))
       theme_key = Some ''light''
   \<and> (items (localStorage (run [ToggleClick, ToggleClick, ToggleClick]
          (theme_DOMContentLoaded (example_page (store [(theme_key, ''blue'')] False))))) theme_key
        = Some ''dark''
      \<or> items (localStorage (run [ToggleClick, ToggleClick, ToggleClick]
          (theme_DOMContentLoaded (example_page (store [(theme_key, ''blue'')] False))))) theme_key
        = Some ''light'')"
proof -
  let ?d = "example_page (store [(theme_key, ''blue'')] False)"
  have w: "\<not> setItem_throws (localStorage ?d)" by (simp add: example_storage)
  have i: "items (localStorage ?d) theme_key = Some ''blue''" by (simp add: example_storage)
  show ?thesis
    using stored_theme_stays_valid [OF w, of "[ToggleClick, ToggleClick, ToggleClick]"] w i
    by simp
qed

end
